theory Spec2Isabelle
  imports Main
begin

section \<open>Go values shared by the messaging packages\<close>

text \<open>
  A Go \<^verbatim>\<open>error\<close> is modelled by its message; an \<^verbatim>\<open>error\<close> result is a
  \<open>go_error option\<close>, \<open>None\<close> being \<^verbatim>\<open>nil\<close>.
\<close>

type_synonym go_error = string

text \<open>
  \<^verbatim>\<open>context.Context\<close> is an interface value: it may be \<^verbatim>\<open>nil\<close>, and a
  non-nil context is either live or already cancelled.
\<close>

datatype go_context = ContextNil | Context (cancelled: bool)

text \<open>
  A Go call either returns its results or panics (a nil dereference, for instance).
  The outcome of a call is kept explicit so that the absence of a panic is a statement
  about the model and not a consequence of HOL's totality.
\<close>

datatype 'a go_result = Panics string | Returns 'a

section \<open>The noop publisher (internal/messaging/noop/publisher.go)\<close>

text \<open>
  \<^verbatim>\<open>type Publisher struct{}\<close>: a struct without fields has one value.
\<close>

datatype Publisher = Publisher

text \<open>
  \<^verbatim>\<open>domain.Order\<close> and \<^verbatim>\<open>domain.OrderStatus\<close> are declared outside the
  files at hand, so the three methods are modelled for any representation \<open>'o\<close> of an
  order and \<open>'s\<close> of a status. The argument \<^verbatim>\<open>*domain.Order\<close> is a pointer:
  \<open>None\<close> is the nil pointer. Every effect a publisher could have (network traffic, log
  lines, stored state) lives in a world \<open>'w\<close> that each method receives and returns.

  \<^verbatim>\<open>func (Publisher) PublishOrderCreated(_ context.Context, _ *domain.Order) error { return nil }\<close>
  \<^verbatim>\<open>func (Publisher) PublishOrderUpdated(_ context.Context, _ *domain.Order) error { return nil }\<close>
  \<^verbatim>\<open>func (Publisher) PublishOrderStatusChanged(_ context.Context, _ *domain.Order, _, _ domain.OrderStatus) error { return nil }\<close>
\<close>

definition PublishOrderCreated ::
  "Publisher \<Rightarrow> go_context \<Rightarrow> 'o option \<Rightarrow> 'w \<Rightarrow> (go_error option \<times> 'w) go_result" where
  "PublishOrderCreated p ctx order w = Returns (None, w)"

definition PublishOrderUpdated ::
  "Publisher \<Rightarrow> go_context \<Rightarrow> 'o option \<Rightarrow> 'w \<Rightarrow> (go_error option \<times> 'w) go_result" where
  "PublishOrderUpdated p ctx order w = Returns (None, w)"

definition PublishOrderStatusChanged ::
  "Publisher \<Rightarrow> go_context \<Rightarrow> 'o option \<Rightarrow> 's \<Rightarrow> 's \<Rightarrow> 'w
     \<Rightarrow> (go_error option \<times> 'w) go_result" where
  "PublishOrderStatusChanged p ctx order old new w = Returns (None, w)"

section \<open>The event envelope (package messaging)\<close>




text \<open>
  \<^verbatim>\<open>float64\<close>: a finite value (a mantissa and a binary exponent), an infinity or
  not-a-number. Nothing here computes with the value; only which of these it is matters.
\<close>

datatype float64 = Float int int | PosInf | NegInf | NaN

fun IsFinite :: "float64 \<Rightarrow> bool" where
  "IsFinite (Float m e) = True"
| "IsFinite PosInf = False"
| "IsFinite NegInf = False"
| "IsFinite NaN = False"

text \<open>
  \<^verbatim>\<open>time.Time\<close>: an instant, as its calendar year and the nanoseconds elapsed in
  that year.
\<close>

datatype Time = Time (Year: int) (InYear: nat)

text \<open>
  \<^verbatim>\<open>type OrderEvent struct\<close>, field by field. A Go string is a sequence of bytes,
  as a \<open>string\<close> is here. \<^verbatim>\<open>Version int\<close> is never computed with, so it is an
  \<open>int\<close>.
\<close>

record OrderEvent =
  EventType :: string
  OrderID :: string
  CustomerID :: string
  Status :: string
  OldStatus :: string
  NewStatus :: string
  Total :: float64
  Version :: int
  OccurredAt :: Time

text \<open>
  The wire form is what \<^verbatim>\<open>encoding/json\<close> makes of the struct and its tags.

  A string is written byte by byte. Bytes that form a well-formed UTF-8 sequence are
  kept; every other byte is written as U+FFFD (the bytes EF BF BD). \<open>rune_size\<close> is
  the size \<^verbatim>\<open>utf8.DecodeRuneInString\<close> finds at the head of the bytes, \<open>None\<close> when
  it reports an error of width one: a lead byte C2..DF, E0..EF or F0..F4 wants one, two
  or three further bytes, the first of them within the range the lead byte accepts and the
  others within 80..BF.
\<close>

definition continuation :: "nat \<Rightarrow> bool" where
  "continuation b = (0x80 \<le> b \<and> b \<le> 0xBF)"

definition acceptRange :: "nat \<Rightarrow> nat \<times> nat" where
  "acceptRange b0 =
     (if b0 = 0xE0 then (0xA0, 0xBF)
      else if b0 = 0xED then (0x80, 0x9F)
      else if b0 = 0xF0 then (0x90, 0xBF)
      else if b0 = 0xF4 then (0x80, 0x8F)
      else (0x80, 0xBF))"

fun rune_size :: "nat list \<Rightarrow> nat option" where
  "rune_size [] = None"
| "rune_size (b0 # bs) =
     (if b0 < 0x80 then Some 1
      else if b0 < 0xC2 \<or> 0xF4 < b0 then None
      else
        let sz = (if b0 < 0xE0 then 2 else if b0 < 0xF0 then 3 else 4 :: nat);
            (lo, hi) = acceptRange b0
        in if length bs < sz - 1 then None
           else if bs ! 0 < lo \<or> hi < bs ! 0 then None
           else if sz = 2 then Some 2
           else if \<not> continuation (bs ! 1) then None
           else if sz = 3 then Some 3
           else if \<not> continuation (bs ! 2) then None
           else Some 4)"

definition replacement :: string where
  "replacement = [CHR 0xEF, CHR 0xBF, CHR 0xBD]"

text \<open>The text a reader of the JSON gets back for a Go string.\<close>

fun valid_text :: "string \<Rightarrow> string" where
  "valid_text [] = []"
| "valid_text (c # cs) =
     (case rune_size (map of_char (c # cs)) of
        None \<Rightarrow> replacement @ valid_text cs
      | Some n \<Rightarrow> c # take (n - 1) cs @ valid_text (drop (n - 1) cs))"

text \<open>
  An object has one member per field, in the order of declaration, under the name the tag
  gives; a field tagged \<^verbatim>\<open>omitempty\<close> is left out when it is the empty string. A
  member's value keeps the JSON kind its Go type is written as: a string, a number
  (\<^verbatim>\<open>float64\<close>), an integer (\<^verbatim>\<open>int\<close>), a timestamp string
  (\<^verbatim>\<open>time.Time\<close>).

  \<^verbatim>\<open>EventType  string    `json:"event_type"`\<close>
  \<^verbatim>\<open>OrderID    string    `json:"order_id"`\<close>
  \<^verbatim>\<open>CustomerID string    `json:"customer_id"`\<close>
  \<^verbatim>\<open>Status     string    `json:"status"`\<close>
  \<^verbatim>\<open>OldStatus  string    `json:"old_status,omitempty"`\<close>
  \<^verbatim>\<open>NewStatus  string    `json:"new_status,omitempty"`\<close>
  \<^verbatim>\<open>Total      float64   `json:"total"`\<close>
  \<^verbatim>\<open>Version    int       `json:"version"`\<close>
  \<^verbatim>\<open>OccurredAt time.Time `json:"occurred_at"`\<close>

  Serialization fails, and gives no object, on a \<^verbatim>\<open>Total\<close> that is not finite
  (\<^verbatim>\<open>json.UnsupportedValueError\<close>) and on an \<^verbatim>\<open>OccurredAt\<close> whose year is
  outside 0..9999 (\<^verbatim>\<open>json.MarshalerError\<close>, from \<^verbatim>\<open>Time.MarshalJSON\<close>); the
  fields are visited in order, so the first of the two is the one reported.
\<close>

datatype json_value =
    JString string
  | JNumber float64
  | JInteger int
  | JTimestamp Time



datatype marshal_error = UnsupportedValueError | MarshalerError

definition omitempty :: "string \<Rightarrow> string \<Rightarrow> (string \<times> json_value) list" where
  "omitempty name v = (if v = [] then [] else [(name, JString (valid_text v))])"

definition OrderEvent_json ::
  "OrderEvent \<Rightarrow> marshal_error + (string \<times> json_value) list" where
  "OrderEvent_json e =
     (if \<not> IsFinite (Total e) then Inl UnsupportedValueError
      else if Year (OccurredAt e) < 0 \<or> 9999 < Year (OccurredAt e) then Inl MarshalerError
      else Inr
       ([(''event_type'', JString (valid_text (EventType e))),
         (''order_id'', JString (valid_text (OrderID e))),
         (''customer_id'', JString (valid_text (CustomerID e))),
         (''status'', JString (valid_text (Status e)))]
        @ omitempty ''old_status'' (OldStatus e)
        @ omitempty ''new_status'' (NewStatus e)
        @ [(''total'', JNumber (Total e)),
           (''version'', JInteger (Version e)),
           (''occurred_at'', JTimestamp (OccurredAt e))]))"


section \<open>The service methods around a publish call (ADR-0006)\<close>

text \<open>
  Modelled from the spec: the service methods that create, update and change the status
  of an order are not among the files; only ADR-0006 is, with its two constraints
  and the compliant example of each:
  \<^verbatim>\<open>if err := s.repo.Create(ctx, order); err != nil { return nil, err }\<close>
  \<^verbatim>\<open>s.publisher.PublishOrderCreated(ctx, order) // after DB write\<close>
  and
  \<^verbatim>\<open>if err := s.publisher.PublishOrderCreated(ctx, order); err != nil {\<close>
  \<^verbatim>\<open>    slog.Warn("failed to publish", slog.String("error", err.Error())) }\<close>
  The three methods below follow these examples and section 4.2 of the specification:
  the durable write first (\<^verbatim>\<open>repo.Create\<close> or \<^verbatim>\<open>repo.Update\<close>), its error
  returned at once; then the publish call, its error logged as a warning and dropped;
  then the order returned.

  The repository and the publisher are parameters giving the outcome of the call made
  (\<open>None\<close> is \<^verbatim>\<open>nil\<close>). What a method does is recorded, in order, as a list of
  effects beside its result.
\<close>

datatype ('o, 's) publish_call =
    CallCreated 'o
  | CallUpdated 'o
  | CallStatusChanged 'o 's 's

datatype ('o, 's) effect =
    WriteCommitted 'o
  | WriteFailed go_error
  | PublishAttempted "('o, 's) publish_call"
  | WarnLogged "('o, 's) publish_call" go_error

text \<open>
  Modelled from the spec: the wrapper around a publish call, missing from the files.
  The call is made; an error it returns is logged as a warning with the call it belongs
  to, and goes no further (ADR-0006, constraint ``Publish Failures Never Returned to
  Caller'').
\<close>

definition publish_logged ::
  "(('o, 's) publish_call \<Rightarrow> go_error option) \<Rightarrow> ('o, 's) publish_call
     \<Rightarrow> ('o, 's) effect list" where
  "publish_logged publisher call =
     (case publisher call of
        None \<Rightarrow> [PublishAttempted call]
      | Some err \<Rightarrow> [PublishAttempted call, WarnLogged call err])"

text \<open>
  Modelled from the spec: the service method that creates an order, missing from the
  files. \<^verbatim>\<open>repo.Create\<close> first, its error returned as it is; then the publish call.
\<close>

definition CreateOrder ::
  "('o \<Rightarrow> go_error option) \<Rightarrow> (('o, 's) publish_call \<Rightarrow> go_error option) \<Rightarrow> 'o
     \<Rightarrow> (go_error + 'o) \<times> ('o, 's) effect list" where
  "CreateOrder repo_create publisher order =
     (case repo_create order of
        Some err \<Rightarrow> (Inl err, [WriteFailed err])
      | None \<Rightarrow>
          (Inr order, WriteCommitted order # publish_logged publisher (CallCreated order)))"

text \<open>
  Modelled from the spec: the service method that updates an order, missing from the
  files. \<^verbatim>\<open>repo.Update\<close> first, its error returned as it is; then the publish call.
\<close>

definition UpdateOrder ::
  "('o \<Rightarrow> go_error option) \<Rightarrow> (('o, 's) publish_call \<Rightarrow> go_error option) \<Rightarrow> 'o
     \<Rightarrow> (go_error + 'o) \<times> ('o, 's) effect list" where
  "UpdateOrder repo_update publisher order =
     (case repo_update order of
        Some err \<Rightarrow> (Inl err, [WriteFailed err])
      | None \<Rightarrow>
          (Inr order, WriteCommitted order # publish_logged publisher (CallUpdated order)))"

text \<open>
  Modelled from the spec: the service method that changes the status of an order, missing
  from the files. \<^verbatim>\<open>repo.Update\<close> first, its error returned as it is; then the
  publish call with the old and the new status.
\<close>

definition UpdateOrderStatus ::
  "('o \<Rightarrow> go_error option) \<Rightarrow> (('o, 's) publish_call \<Rightarrow> go_error option) \<Rightarrow> 'o
     \<Rightarrow> 's \<Rightarrow> 's \<Rightarrow> (go_error + 'o) \<times> ('o, 's) effect list" where
  "UpdateOrderStatus repo_update publisher order old new =
     (case repo_update order of
        Some err \<Rightarrow> (Inl err, [WriteFailed err])
      | None \<Rightarrow>
          (Inr order,
           WriteCommitted order # publish_logged publisher (CallStatusChanged order old new)))"

text \<open>The order a publish call is about.\<close>

fun order_of :: "('o, 's) publish_call \<Rightarrow> 'o" where
  "order_of (CallCreated order) = order"
| "order_of (CallUpdated order) = order"
| "order_of (CallStatusChanged order old new) = order"

text \<open>
  A list of effects is well ordered when every publish call in it comes after the
  acknowledged write of the order it is about. \<open>acked\<close> holds the orders whose write has
  been acknowledged so far.
\<close>

fun publish_after_write :: "'o list \<Rightarrow> ('o, 's) effect list \<Rightarrow> bool" where
  "publish_after_write acked [] = True"
| "publish_after_write acked (WriteCommitted order # es) = publish_after_write (order # acked) es"
| "publish_after_write acked (WriteFailed err # es) = publish_after_write acked es"
| "publish_after_write acked (PublishAttempted call # es) =
     (order_of call \<in> set acked \<and> publish_after_write acked es)"
| "publish_after_write acked (WarnLogged call err # es) = publish_after_write acked es"

fun is_publish :: "('o, 's) effect \<Rightarrow> bool" where
  "is_publish (PublishAttempted call) = True"
| "is_publish (WriteCommitted order) = False"
| "is_publish (WriteFailed err) = False"
| "is_publish (WarnLogged call err) = False"

section \<open>Properties of the noop publisher\<close>

text \<open>
  C2. For every context, every order and every pair of statuses, each of the three
  publish operations of the noop publisher returns at once with a nil error, and the
  world it was called in (network, logs, any other state) is returned unchanged.
\<close>

theorem noop_publisher_reports_success:
  "PublishOrderCreated p ctx order w = Returns (None, w)
   \<and> PublishOrderUpdated p ctx order w = Returns (None, w)
   \<and> PublishOrderStatusChanged p ctx order old new w = Returns (None, w)"
  by (simp add: PublishOrderCreated_def PublishOrderUpdated_def
      PublishOrderStatusChanged_def)

text \<open>
  C10. Each operation of the noop publisher ignores all of its arguments: two calls with
  any receivers, contexts, order pointers and statuses give the same outcome in the same
  world. That outcome is never a panic and always carries a nil error, in particular for
  a nil order pointer with a nil or a cancelled context; the world is neither read (the
  error does not depend on it) nor changed; and the receiver type has a single value.
\<close>

theorem noop_publisher_ignores_arguments:
  "PublishOrderCreated p ctx order w = PublishOrderCreated p' ctx' order' w
   \<and> PublishOrderUpdated p ctx order w = PublishOrderUpdated p' ctx' order' w
   \<and> PublishOrderStatusChanged p ctx order old new w
       = PublishOrderStatusChanged p' ctx' order' old' new' w
   \<and> PublishOrderCreated p ContextNil None w = Returns (None, w)
   \<and> PublishOrderUpdated p ContextNil None w = Returns (None, w)
   \<and> PublishOrderStatusChanged p ContextNil None old new w = Returns (None, w)
   \<and> PublishOrderCreated p (Context True) None w = Returns (None, w)
   \<and> PublishOrderUpdated p (Context True) None w = Returns (None, w)
   \<and> PublishOrderStatusChanged p (Context True) None old new w = Returns (None, w)
   \<and> (\<forall>m. PublishOrderCreated p ctx order w \<noteq> Panics m)
   \<and> (\<forall>m. PublishOrderUpdated p ctx order w \<noteq> Panics m)
   \<and> (\<forall>m. PublishOrderStatusChanged p ctx order old new w \<noteq> Panics m)
   \<and> (\<forall>q. q = Publisher)"
proof -
  have single: "\<forall>q. q = Publisher"
  proof
    fix q show "q = Publisher" by (cases q) simp
  qed
  then show ?thesis
    by (simp add: PublishOrderCreated_def PublishOrderUpdated_def
        PublishOrderStatusChanged_def)
qed

section \<open>Properties of the wire envelope\<close>



text \<open>Serialization succeeds exactly on a finite total and a year within 0..9999.\<close>

lemma OrderEvent_json_succeeds:
  "(\<exists>ms. OrderEvent_json e = Inr ms)
     \<longleftrightarrow> IsFinite (Total e) \<and> 0 \<le> Year (OccurredAt e) \<and> Year (OccurredAt e) \<le> 9999"
  by (auto simp add: OrderEvent_json_def)




section \<open>Properties of the service methods\<close>

lemma publish_logged_only_call:
  "publish_after_write acked (publish_logged publisher call)
     = (order_of call \<in> set acked)"
  by (simp add: publish_logged_def split: option.split)

lemma warn_in_publish_logged:
  "publisher call = Some perr \<Longrightarrow> WarnLogged call perr \<in> set (publish_logged publisher call)"
  by (simp add: publish_logged_def)

text \<open>
  C1. For create, update and status change alike: the result handed to the caller is the
  one the method gives with a publisher that always succeeds; an error in the result is
  the error of the durable write and nothing else; and when the write is acknowledged and
  the publish call returns an error, that error is logged as a warning together with the
  call it belongs to, while the caller receives the order.
\<close>

theorem publish_failure_never_returned:
  "fst (CreateOrder repo publisher order) = fst (CreateOrder repo (\<lambda>call. None) order)
   \<and> fst (UpdateOrder repo publisher order) = fst (UpdateOrder repo (\<lambda>call. None) order)
   \<and> fst (UpdateOrderStatus repo publisher order old new)
       = fst (UpdateOrderStatus repo (\<lambda>call. None) order old new)
   \<and> (fst (CreateOrder repo publisher order) = Inl err \<longrightarrow> repo order = Some err)
   \<and> (fst (UpdateOrder repo publisher order) = Inl err \<longrightarrow> repo order = Some err)
   \<and> (fst (UpdateOrderStatus repo publisher order old new) = Inl err
        \<longrightarrow> repo order = Some err)
   \<and> (repo order = None \<and> publisher (CallCreated order) = Some perr
        \<longrightarrow> fst (CreateOrder repo publisher order) = Inr order
          \<and> WarnLogged (CallCreated order) perr \<in> set (snd (CreateOrder repo publisher order)))
   \<and> (repo order = None \<and> publisher (CallUpdated order) = Some perr
        \<longrightarrow> fst (UpdateOrder repo publisher order) = Inr order
          \<and> WarnLogged (CallUpdated order) perr \<in> set (snd (UpdateOrder repo publisher order)))
   \<and> (repo order = None \<and> publisher (CallStatusChanged order old new) = Some perr
        \<longrightarrow> fst (UpdateOrderStatus repo publisher order old new) = Inr order
          \<and> WarnLogged (CallStatusChanged order old new) perr
              \<in> set (snd (UpdateOrderStatus repo publisher order old new)))"
proof -
  have same: "fst (CreateOrder repo publisher order) = fst (CreateOrder repo (\<lambda>call. None) order)"
    "fst (UpdateOrder repo publisher order) = fst (UpdateOrder repo (\<lambda>call. None) order)"
    "fst (UpdateOrderStatus repo publisher order old new)
       = fst (UpdateOrderStatus repo (\<lambda>call. None) order old new)"
    by (simp_all add: CreateOrder_def UpdateOrder_def UpdateOrderStatus_def split: option.split)
  have only_write:
    "fst (CreateOrder repo publisher order) = Inl err \<longrightarrow> repo order = Some err"
    "fst (UpdateOrder repo publisher order) = Inl err \<longrightarrow> repo order = Some err"
    "fst (UpdateOrderStatus repo publisher order old new) = Inl err \<longrightarrow> repo order = Some err"
    by (simp_all add: CreateOrder_def UpdateOrder_def UpdateOrderStatus_def split: option.split)
  have logged:
    "repo order = None \<and> publisher (CallCreated order) = Some perr
       \<longrightarrow> fst (CreateOrder repo publisher order) = Inr order
         \<and> WarnLogged (CallCreated order) perr \<in> set (snd (CreateOrder repo publisher order))"
    "repo order = None \<and> publisher (CallUpdated order) = Some perr
       \<longrightarrow> fst (UpdateOrder repo publisher order) = Inr order
         \<and> WarnLogged (CallUpdated order) perr \<in> set (snd (UpdateOrder repo publisher order))"
    "repo order = None \<and> publisher (CallStatusChanged order old new) = Some perr
       \<longrightarrow> fst (UpdateOrderStatus repo publisher order old new) = Inr order
         \<and> WarnLogged (CallStatusChanged order old new) perr
             \<in> set (snd (UpdateOrderStatus repo publisher order old new))"
    by (simp_all add: CreateOrder_def UpdateOrder_def UpdateOrderStatus_def
        warn_in_publish_logged)
  from same only_write logged show ?thesis by blast
qed

text \<open>
  With a repository that acknowledges every write and a publisher that always fails,
  the three methods still return the order, and each logs the failure of its call.
\<close>

theorem publish_failure_never_returned_witness:
  "fst (CreateOrder (\<lambda>order. None) (\<lambda>call. Some ''broker unreachable'') (7::nat)
        :: (go_error + nat) \<times> (nat, string) effect list) = Inr 7
   \<and> WarnLogged (CallCreated 7) ''broker unreachable''
       \<in> set (snd (CreateOrder (\<lambda>order. None) (\<lambda>call. Some ''broker unreachable'') (7::nat)
                  :: (go_error + nat) \<times> (nat, string) effect list))
   \<and> fst (UpdateOrder (\<lambda>order. None) (\<lambda>call. Some ''broker unreachable'') (7::nat)
        :: (go_error + nat) \<times> (nat, string) effect list) = Inr 7
   \<and> WarnLogged (CallUpdated 7) ''broker unreachable''
       \<in> set (snd (UpdateOrder (\<lambda>order. None) (\<lambda>call. Some ''broker unreachable'') (7::nat)
                  :: (go_error + nat) \<times> (nat, string) effect list))
   \<and> fst (UpdateOrderStatus (\<lambda>order. None) (\<lambda>call. Some ''broker unreachable'') (7::nat)
          ''pending'' ''confirmed'') = Inr 7
   \<and> WarnLogged (CallStatusChanged 7 ''pending'' ''confirmed'') ''broker unreachable''
       \<in> set (snd (UpdateOrderStatus (\<lambda>order. None) (\<lambda>call. Some ''broker unreachable'')
                  (7::nat) ''pending'' ''confirmed''))"
  using publish_failure_never_returned
    [of "\<lambda>order. None" "\<lambda>call. Some ''broker unreachable''" "7::nat" "''pending''"
      "''confirmed''" "''conflict''" "''broker unreachable''"]
  by blast

text \<open>
  C7. In each of the three methods every publish call comes after the acknowledged
  durable write of the order it is about, and a method whose write fails makes no
  publish call at all.
\<close>

theorem publish_only_after_committed_write:
  "publish_after_write [] (snd (CreateOrder repo publisher order))
   \<and> publish_after_write [] (snd (UpdateOrder repo publisher order))
   \<and> publish_after_write [] (snd (UpdateOrderStatus repo publisher order old new))
   \<and> (repo order \<noteq> None \<longrightarrow>
        filter is_publish (snd (CreateOrder repo publisher order)) = []
        \<and> filter is_publish (snd (UpdateOrder repo publisher order)) = []
        \<and> filter is_publish (snd (UpdateOrderStatus repo publisher order old new)) = [])"
proof -
  have ordered:
    "publish_after_write [] (snd (CreateOrder repo publisher order))"
    "publish_after_write [] (snd (UpdateOrder repo publisher order))"
    "publish_after_write [] (snd (UpdateOrderStatus repo publisher order old new))"
    by (simp_all add: CreateOrder_def UpdateOrder_def UpdateOrderStatus_def
        publish_logged_only_call split: option.split)
  have aborted:
    "repo order \<noteq> None \<longrightarrow>
       filter is_publish (snd (CreateOrder repo publisher order)) = []
       \<and> filter is_publish (snd (UpdateOrder repo publisher order)) = []
       \<and> filter is_publish (snd (UpdateOrderStatus repo publisher order old new)) = []"
    by (auto simp add: CreateOrder_def UpdateOrder_def UpdateOrderStatus_def)
  from ordered aborted show ?thesis by blast
qed

text \<open>
  A write that fails leaves a single effect, the failed write; a write that succeeds is
  the first effect and the publish call the second.
\<close>

theorem publish_only_after_committed_write_witness:
  "filter is_publish (snd (CreateOrder (\<lambda>order. Some ''conflict'') (\<lambda>call. None) (7::nat)
        :: (go_error + nat) \<times> (nat, string) effect list)) = []
   \<and> publish_after_write [] (snd (CreateOrder (\<lambda>order. None) (\<lambda>call. None) (7::nat)
        :: (go_error + nat) \<times> (nat, string) effect list))
   \<and> snd (CreateOrder (\<lambda>order. None) (\<lambda>call. None) (7::nat)
        :: (go_error + nat) \<times> (nat, string) effect list)
       = [WriteCommitted 7, PublishAttempted (CallCreated 7)]"
  using publish_only_after_committed_write
    [of "\<lambda>order. None" "\<lambda>call. None" "7::nat" "''pending''" "''confirmed''"]
    publish_only_after_committed_write
    [of "\<lambda>order. Some ''conflict''" "\<lambda>call. None" "7::nat" "''pending''" "''confirmed''"]
  by (simp add: CreateOrder_def publish_logged_def)

end
